theory Spec2Isabelle
  imports
    Main
    "HOL-Library.Char_ord"
    "HOL-Library.List_Lexorder"
    "HOL-Library.Product_Lexorder"
    "HOL-Library.Multiset"
    "HOL-Library.Sublist"
begin

section \<open>Values, exceptions and the data store\<close>

text \<open>
  The values sqlite3 hands to Python: \<open>None\<close>, \<open>int\<close>, \<open>str\<close> and \<open>bytes\<close>.
  Text is kept as its UTF-8 bytes. REAL values (Python floats) are left out.
\<close>

datatype sqlval = SNull | SInt int | SText string | SBlob string

text \<open>
  The exceptions the code can meet. \<open>except sqlite3.Error\<close> catches only the first
  constructor; \<open>except Exception\<close> catches all of them. Each carries \<open>str(e)\<close>.
\<close>

datatype pyexn =
    Sqlite3_Error string
  | Import_Error string
  | OS_Error string
  | Other_Exception string

fun exn_str :: "pyexn \<Rightarrow> string" where
  "exn_str (Sqlite3_Error m) = m"
| "exn_str (Import_Error m) = m"
| "exn_str (OS_Error m) = m"
| "exn_str (Other_Exception m) = m"

text \<open>
  SQLite compares the names of tables and columns, and \<open>sqlite3.Row\<close> the names it is
  indexed with, without regard to the case of the ASCII letters.
\<close>

definition lower_ascii :: "char \<Rightarrow> char" where
  "lower_ascii c =
     (case map_of (zip ''ABCDEFGHIJKLMNOPQRSTUVWXYZ'' ''abcdefghijklmnopqrstuvwxyz'') c of
        Some l \<Rightarrow> l
      | None \<Rightarrow> c)"

definition ci_eq :: "string \<Rightarrow> string \<Rightarrow> bool" where
  "ci_eq a b = (map lower_ascii a = map lower_ascii b)"

text \<open>
  A table has named columns and rows; a stored row gives every column a value.
  A result row (\<open>sqlite3.Row\<close>) is the list of its columns, under the names the table
  declares, with their values: \<open>row.keys()\<close> is \<open>map fst\<close>, and \<open>row[name]\<close> is
  \<open>cell\<close>, the value of the first column whose name equals \<open>name\<close> up to case. The
  program indexes a row only with a name it has found in \<open>row.keys()\<close> or has selected,
  so the IndexError of a missing name is never met; \<open>cell\<close> gives NULL there.
\<close>

record table =
  tcolumns :: "string list"
  trows :: "(string \<Rightarrow> sqlval) list"

type_synonym row = "(string \<times> sqlval) list"

definition row_keys :: "row \<Rightarrow> string list" where
  "row_keys r = map fst r"

definition cell :: "row \<Rightarrow> string \<Rightarrow> sqlval" where
  "cell r c = (case find (\<lambda>p. ci_eq (fst p) c) r of Some p \<Rightarrow> snd p | None \<Rightarrow> SNull)"

definition column_name :: "row \<Rightarrow> string \<Rightarrow> string" where
  "column_name r c = (case find (\<lambda>p. ci_eq (fst p) c) r of Some p \<Rightarrow> fst p | None \<Rightarrow> c)"

definition has_column :: "table \<Rightarrow> string \<Rightarrow> bool" where
  "has_column t c = list_ex (\<lambda>c'. ci_eq c' c) (tcolumns t)"

text \<open>
  The SQL statements of the program all have the shape
  \<open>SELECT sel FROM tbl [WHERE col = v] [ORDER BY cols]\<close>.
\<close>

datatype selection = Star | Cols "string list"

datatype query = Select selection string "(string \<times> sqlval) option" "string list"

text \<open>
  SQL comparison of a column with a value: NULL equals nothing; otherwise the two are equal
  when they have the same storage class and content (columns without numeric affinity,
  default BINARY collation, which does regard case).
\<close>

definition sql_eq :: "sqlval \<Rightarrow> sqlval \<Rightarrow> bool" where
  "sql_eq a b = (a \<noteq> SNull \<and> b \<noteq> SNull \<and> a = b)"

text \<open>
  The order of \<open>ORDER BY\<close>: NULL first, then integers by value, then text and then blobs,
  both by their bytes.
\<close>

fun sql_rank :: "sqlval \<Rightarrow> nat \<times> int \<times> string" where
  "sql_rank SNull = (0, 0, [])"
| "sql_rank (SInt i) = (1, i, [])"
| "sql_rank (SText s) = (2, 0, s)"
| "sql_rank (SBlob b) = (3, 0, b)"

definition stored_row :: "string list \<Rightarrow> (string \<Rightarrow> sqlval) \<Rightarrow> row" where
  "stored_row cs f = map (\<lambda>c. (c, f c)) cs"

definition where_clause :: "(string \<times> sqlval) option \<Rightarrow> row list \<Rightarrow> row list" where
  "where_clause w rs =
     (case w of None \<Rightarrow> rs | Some (c, v) \<Rightarrow> filter (\<lambda>r. sql_eq (cell r c) v) rs)"

definition order_by :: "string list \<Rightarrow> row list \<Rightarrow> row list" where
  "order_by cs rs = sort_key (\<lambda>r. map (\<lambda>c. sql_rank (cell r c)) cs) rs"

text \<open>A selected column is reported under the name the table declares for it.\<close>

definition project :: "selection \<Rightarrow> row \<Rightarrow> row" where
  "project sel r =
     (case sel of Star \<Rightarrow> r | Cols cs \<Rightarrow> map (\<lambda>c. (column_name r c, cell r c)) cs)"

definition referenced :: "selection \<Rightarrow> (string \<times> sqlval) option \<Rightarrow> string list \<Rightarrow> string list" where
  "referenced sel w ord =
     (case sel of Star \<Rightarrow> [] | Cols cs \<Rightarrow> cs) @ (case w of None \<Rightarrow> [] | Some (c, v) \<Rightarrow> [c]) @ ord"

text \<open>The tables of a data store are kept under their names in lower case.\<close>

fun run_query :: "(string \<rightharpoonup> table) \<Rightarrow> query \<Rightarrow> pyexn + row list" where
  "run_query db (Select sel tbl w ord) =
     (case db (map lower_ascii tbl) of
        None \<Rightarrow> Inl (Sqlite3_Error (''no such table: '' @ tbl))
      | Some t \<Rightarrow>
          (case find (\<lambda>c. \<not> has_column t c) (referenced sel w ord) of
             Some c \<Rightarrow> Inl (Sqlite3_Error (''no such column: '' @ c))
           | None \<Rightarrow>
               Inr (map (project sel)
                     (order_by ord (where_clause w (map (stored_row (tcolumns t)) (trows t)))))))"

text \<open>
  The environment of a call: whether \<open>sqlite3.connect\<close> fails, whether a statement
  fails for a reason outside the data (a locked or damaged file, or an exception that is not
  a \<open>sqlite3.Error\<close>), and the tables of the data store. The program never writes to the
  store, so the environment is the same for every call.
\<close>

record env =
  connect_fault :: "pyexn option"
  query_fault :: "query \<Rightarrow> pyexn option"
  tables :: "string \<rightharpoonup> table"

text \<open>What a call does besides returning: the connections it opens and closes, the
  statements it executes and the lines it prints.\<close>

datatype event = Connect | Execute query | Print string | Close

definition get_db_connection :: "env \<Rightarrow> pyexn + unit" where
  "get_db_connection e = (case connect_fault e of Some x \<Rightarrow> Inl x | None \<Rightarrow> Inr ())"

definition execute :: "env \<Rightarrow> query \<Rightarrow> pyexn + row list" where
  "execute e q = (case query_fault e q of Some x \<Rightarrow> Inl x | None \<Rightarrow> run_query (tables e) q)"

definition fetchone :: "row list \<Rightarrow> row option" where
  "fetchone rs = (case rs of [] \<Rightarrow> None | r # _ \<Rightarrow> Some r)"

section \<open>Settings resolution (app.py, get_site_settings)\<close>

type_synonym settings = "sqlval \<rightharpoonup> sqlval"

definition product_name_default :: string where
  "product_name_default = ''Dutch Dawg'' @ [CHR 0xC2, CHR 0xAE]"

definition defaults :: "(string \<times> string) list" where
  "defaults =
     [(''company_name'', ''Freak-n-Fries''),
      (''tagline'', ''Home of the Dutch frikandel in the US''),
      (''phone'', ''440 453 1877''),
      (''email'', ''info@freaknfries.com''),
      (''product_name'', product_name_default)]"

definition default_settings :: settings where
  "default_settings =
     [SText ''company_name'' \<mapsto> SText ''Freak-n-Fries'',
      SText ''tagline'' \<mapsto> SText ''Home of the Dutch frikandel in the US'',
      SText ''phone'' \<mapsto> SText ''440 453 1877'',
      SText ''email'' \<mapsto> SText ''info@freaknfries.com'',
      SText ''product_name'' \<mapsto> SText product_name_default]"

definition recognized_keys :: "sqlval set" where
  "recognized_keys =
     {SText ''company_name'', SText ''tagline'', SText ''phone'', SText ''email'',
      SText ''product_name''}"

text \<open>Method 1: the dictionary built from the row with \<open>id = 1\<close>.\<close>

definition settings_of_row :: "row \<Rightarrow> settings" where
  "settings_of_row r =
     [SText ''company_name'' \<mapsto>
        (if ''company_name'' \<in> set (row_keys r) then cell r ''company_name''
         else SText ''Freak-n-Fries''),
      SText ''tagline'' \<mapsto>
        (if ''tagline'' \<in> set (row_keys r) then cell r ''tagline''
         else SText ''Home of the Dutch frikandel in the US''),
      SText ''phone'' \<mapsto>
        (if ''phone'' \<in> set (row_keys r) then cell r ''phone'' else SText ''440 453 1877''),
      SText ''email'' \<mapsto>
        (if ''email'' \<in> set (row_keys r) then cell r ''email''
         else SText ''info@freaknfries.com''),
      SText ''product_name'' \<mapsto>
        (if ''product_name'' \<in> set (row_keys r) then cell r ''product_name''
         else SText product_name_default)]"

text \<open>Method 2: the loop over the key/value rows, then the loop over \<open>defaults.items()\<close>.\<close>

fun collect_pairs :: "settings \<Rightarrow> row list \<Rightarrow> settings" where
  "collect_pairs s [] = s"
| "collect_pairs s (r # rs) = collect_pairs (s(cell r ''key'' \<mapsto> cell r ''value'')) rs"

fun fill_defaults :: "settings \<Rightarrow> (string \<times> string) list \<Rightarrow> settings" where
  "fill_defaults s [] = s"
| "fill_defaults s ((k, d) # kds) =
     fill_defaults (if SText k \<notin> dom s then s(SText k \<mapsto> SText d) else s) kds"

definition settings_of_pairs :: "row list \<Rightarrow> settings" where
  "settings_of_pairs rs = fill_defaults (collect_pairs Map.empty rs) defaults"

definition q_settings_row :: query where
  "q_settings_row = Select Star ''settings'' (Some (''id'', SInt 1)) []"

definition q_settings_pairs :: query where
  "q_settings_pairs = Select (Cols [''key'', ''value'']) ''settings'' None []"

text \<open>
  The second and third stage of \<open>get_site_settings\<close>, reached when method 1 returned no
  row or raised a \<open>sqlite3.Error\<close>; \<open>tr\<close> is what has happened so far.
\<close>

definition settings_method2 :: "env \<Rightarrow> event list \<Rightarrow> (pyexn + settings) \<times> event list" where
  "settings_method2 e tr =
     (case execute e q_settings_pairs of
        Inr rs \<Rightarrow>
          (if rs \<noteq> [] then
             (Inr (settings_of_pairs rs), tr @ [Execute q_settings_pairs, Close, Close])
           else
             (Inr default_settings,
              tr @ [Execute q_settings_pairs, Print ''Using fallback default values'', Close]))
      | Inl (Sqlite3_Error m) \<Rightarrow>
          (Inr default_settings,
           tr @ [Execute q_settings_pairs, Print (''Method 2 failed: '' @ m),
                 Print ''Using fallback default values'', Close])
      | Inl x \<Rightarrow>
          (Inr default_settings,
           tr @ [Execute q_settings_pairs,
                 Print (''Database error in get_site_settings: '' @ exn_str x), Close]))"

definition get_site_settings :: "env \<Rightarrow> (pyexn + settings) \<times> event list" where
  "get_site_settings e =
     (case get_db_connection e of
        Inl x \<Rightarrow> (Inl x, [Connect])
      | Inr _ \<Rightarrow>
          (case execute e q_settings_row of
             Inr rs \<Rightarrow>
               (case fetchone rs of
                  Some r \<Rightarrow>
                    (if r \<noteq> [] then
                       (Inr (settings_of_row r), [Connect, Execute q_settings_row, Close, Close])
                     else settings_method2 e [Connect, Execute q_settings_row])
                | None \<Rightarrow> settings_method2 e [Connect, Execute q_settings_row])
           | Inl (Sqlite3_Error m) \<Rightarrow>
               settings_method2 e
                 [Connect, Execute q_settings_row, Print (''Method 1 failed: '' @ m)]
           | Inl x \<Rightarrow>
               (Inr default_settings,
                [Connect, Execute q_settings_row,
                 Print (''Database error in get_site_settings: '' @ exn_str x), Close])))"

section \<open>Data access (app.py)\<close>

definition q_page :: "string \<Rightarrow> query" where
  "q_page slug = Select Star ''pages'' (Some (''slug'', SText slug)) []"

definition get_page :: "env \<Rightarrow> string \<Rightarrow> (pyexn + row option) \<times> event list" where
  "get_page e slug =
     (case get_db_connection e of
        Inl x \<Rightarrow> (Inl x, [Connect])
      | Inr _ \<Rightarrow>
          (case execute e (q_page slug) of
             Inr rs \<Rightarrow> (Inr (fetchone rs), [Connect, Execute (q_page slug), Close])
           | Inl (Sqlite3_Error m) \<Rightarrow>
               (Inr None,
                [Connect, Execute (q_page slug),
                 Print (''Error getting page '' @ slug @ '': '' @ m), Close])
           | Inl x \<Rightarrow> (Inl x, [Connect, Execute (q_page slug), Close])))"

definition q_page_content :: "string \<Rightarrow> query" where
  "q_page_content page_name =
     Select Star ''page_content'' (Some (''page_name'', SText page_name)) []"

definition get_page_content :: "env \<Rightarrow> string \<Rightarrow> (pyexn + row option) \<times> event list" where
  "get_page_content e page_name =
     (case get_db_connection e of
        Inl x \<Rightarrow> (Inl x, [Connect])
      | Inr _ \<Rightarrow>
          (case execute e (q_page_content page_name) of
             Inr rs \<Rightarrow>
               (Inr (fetchone rs), [Connect, Execute (q_page_content page_name), Close])
           | Inl (Sqlite3_Error m) \<Rightarrow>
               (Inr None,
                [Connect, Execute (q_page_content page_name),
                 Print (''Error getting page content '' @ page_name @ '': '' @ m), Close])
           | Inl x \<Rightarrow> (Inl x, [Connect, Execute (q_page_content page_name), Close])))"

definition q_retailers :: "string \<Rightarrow> query" where
  "q_retailers category =
     Select Star ''retailers'' (Some (''category'', SText category)) [''name'']"

definition get_retailers_by_category ::
  "env \<Rightarrow> string \<Rightarrow> (pyexn + row list) \<times> event list" where
  "get_retailers_by_category e category =
     (case get_db_connection e of
        Inl x \<Rightarrow> (Inl x, [Connect])
      | Inr _ \<Rightarrow>
          (case execute e (q_retailers category) of
             Inr rs \<Rightarrow> (Inr rs, [Connect, Execute (q_retailers category), Close])
           | Inl (Sqlite3_Error m) \<Rightarrow>
               (Inr [],
                [Connect, Execute (q_retailers category),
                 Print (''Error getting retailers for category '' @ category @ '': '' @ m),
                 Close])
           | Inl x \<Rightarrow> (Inl x, [Connect, Execute (q_retailers category), Close])))"

definition q_testimonials :: query where
  "q_testimonials = Select Star ''testimonials'' (Some (''active'', SInt 1)) []"

definition get_testimonials :: "env \<Rightarrow> (pyexn + row list) \<times> event list" where
  "get_testimonials e =
     (case get_db_connection e of
        Inl x \<Rightarrow> (Inl x, [Connect])
      | Inr _ \<Rightarrow>
          (case execute e q_testimonials of
             Inr rs \<Rightarrow> (Inr rs, [Connect, Execute q_testimonials, Close])
           | Inl (Sqlite3_Error m) \<Rightarrow>
               (Inr [],
                [Connect, Execute q_testimonials,
                 Print (''Error getting testimonials: '' @ m), Close])
           | Inl x \<Rightarrow> (Inl x, [Connect, Execute q_testimonials, Close])))"

section \<open>The home route (app.py, index)\<close>

text \<open>
  \<open>render_template\<close> and the templates are not part of the program text, so the renderer
  is a parameter: it gets the template's name and the keyword arguments and returns the
  page or raises.
\<close>

datatype tval = TSettings settings | TRow "row option" | TRows "row list"

type_synonym renderer = "string \<Rightarrow> (string \<times> tval) list \<Rightarrow> pyexn + string"

type_synonym response = "string \<times> nat"

definition index_failed :: "pyexn \<Rightarrow> event list \<Rightarrow> response \<times> event list" where
  "index_failed x tr =
     ((''Error loading home page: '' @ exn_str x, 500),
      tr @ [Print (''Error in index route: '' @ exn_str x)])"

definition index :: "renderer \<Rightarrow> env \<Rightarrow> response \<times> event list" where
  "index render e =
     (case get_site_settings e of
        (Inl x, t1) \<Rightarrow> index_failed x t1
      | (Inr site_settings, t1) \<Rightarrow>
          (case get_page_content e ''home'' of
             (Inl x, t2) \<Rightarrow> index_failed x (t1 @ t2)
           | (Inr home_content, t2) \<Rightarrow>
               (case get_testimonials e of
                  (Inl x, t3) \<Rightarrow> index_failed x (t1 @ t2 @ t3)
                | (Inr testimonials, t3) \<Rightarrow>
                    (let testimonial =
                           (if testimonials \<noteq> [] then Some (hd testimonials) else None)
                     in case render ''index.html''
                               [(''site_settings'', TSettings site_settings),
                                (''settings'', TSettings site_settings),
                                (''home_content'', TRow home_content),
                                (''testimonial'', TRow testimonial)] of
                          Inl x \<Rightarrow> index_failed x (t1 @ t2 @ t3)
                        | Inr body \<Rightarrow> ((body, 200), t1 @ t2 @ t3)))))"

section \<open>The static exporter (freeze.py)\<close>

text \<open>
  The file system is a map from paths to nodes. A file holds text, or the JSON document
  that \<open>json.dump\<close> writes for the deployment information. Permissions and full disks
  are not modelled.
\<close>

record deployment_info =
  generated_at :: string
  python_version :: string
  flask_version :: string
  pages_generated :: "string list"
  deployment_target :: string
  instructions :: "string list"

datatype content = Text string | Json deployment_info

datatype node = Dir | File content

type_synonym fs = "string \<rightharpoonup> node"

text \<open>What the interpreter and the clock report when the manifest is written.\<close>

record runtime =
  now_isoformat :: string
  sys_version :: string
  flask_dunder_version :: string

text \<open>\<open>app.config['FREEZER_DESTINATION']\<close>\<close>

definition build_dir :: string where
  "build_dir = ''build''"

definition path_join :: "string \<Rightarrow> string \<Rightarrow> string" where
  "path_join d p = d @ ''/'' @ p"

definition path_exists :: "fs \<Rightarrow> string \<Rightarrow> bool" where
  "path_exists fs p = (fs p \<noteq> None)"

definition is_under :: "string \<Rightarrow> string \<Rightarrow> bool" where
  "is_under d p = prefix (d @ ''/'') p"

text \<open>\<open>with open(os.path.join(d, name), 'w') as f: f.write(c)\<close>\<close>

definition open_write :: "fs \<Rightarrow> string \<Rightarrow> string \<Rightarrow> content \<Rightarrow> pyexn + fs" where
  "open_write fs d name c =
     (if fs d \<noteq> Some Dir then Inl (OS_Error ''No such file or directory'')
      else if fs (path_join d name) = Some Dir then Inl (OS_Error ''Is a directory'')
      else Inr (fs(path_join d name \<mapsto> File c)))"

definition rmtree :: "fs \<Rightarrow> string \<Rightarrow> pyexn + fs" where
  "rmtree fs d =
     (if fs d = Some Dir then Inr (\<lambda>p. if p = d \<or> is_under d p then None else fs p)
      else Inl (OS_Error ''Not a directory''))"

text \<open>\<open>os.makedirs(d, exist_ok=True)\<close> for a one-component relative path.\<close>

definition makedirs :: "fs \<Rightarrow> string \<Rightarrow> pyexn + fs" where
  "makedirs fs d =
     (case fs d of
        Some (File c) \<Rightarrow> Inl (OS_Error ''File exists'')
      | _ \<Rightarrow> Inr (fs(d \<mapsto> Dir)))"

text \<open>
  A step of the exporter returns or raises, leaves a file system behind and has printed
  lines. \<open>then_do\<close> is the sequencing of two statements: an exception ends the run.
\<close>

type_synonym 'a run = "(pyexn + 'a) \<times> fs \<times> string list"

definition then_do :: "unit run \<Rightarrow> (fs \<Rightarrow> 'a run) \<Rightarrow> 'a run" where
  "then_do r k =
     (case r of
        (Inl x, fs, out) \<Rightarrow> (Inl x, fs, out)
      | (Inr u, fs, out) \<Rightarrow> (case k fs of (res, fs', out') \<Rightarrow> (res, fs', out @ out')))"

definition lift_fs :: "fs \<Rightarrow> pyexn + fs \<Rightarrow> unit run" where
  "lift_fs fs r = (case r of Inl x \<Rightarrow> (Inl x, fs, []) | Inr fs' \<Rightarrow> (Inr (), fs', []))"

definition say :: "string \<Rightarrow> fs \<Rightarrow> unit run" where
  "say line fs = (Inr (), fs, [line])"

definition robots_txt :: string where
  "robots_txt =
     ''User-agent: *'' @ [CHR 0x0A] @
     ''Allow: /'' @ [CHR 0x0A] @
     [CHR 0x0A] @
     ''Sitemap: https://www.freaknfries.com/sitemap.xml'' @ [CHR 0x0A]"

definition sitemap_xml :: string where
  \<open>sitemap_xml =
     ''<?xml version="1.0" encoding="UTF-8"?>'' @ [CHR 0x0A] @
     ''<urlset xmlns="http://www.sitemaps.org/schemas/sitemap/0.9">'' @ [CHR 0x0A] @
     ''    <url>'' @ [CHR 0x0A] @
     ''        <loc>https://www.freaknfries.com/</loc>'' @ [CHR 0x0A] @
     ''        <changefreq>weekly</changefreq>'' @ [CHR 0x0A] @
     ''        <priority>1.0</priority>'' @ [CHR 0x0A] @
     ''    </url>'' @ [CHR 0x0A] @
     ''    <url>'' @ [CHR 0x0A] @
     ''        <loc>https://www.freaknfries.com/about</loc>'' @ [CHR 0x0A] @
     ''        <changefreq>monthly</changefreq>'' @ [CHR 0x0A] @
     ''        <priority>0.8</priority>'' @ [CHR 0x0A] @
     ''    </url>'' @ [CHR 0x0A] @
     ''    <url>'' @ [CHR 0x0A] @
     ''        <loc>https://www.freaknfries.com/where-to-buy</loc>'' @ [CHR 0x0A] @
     ''        <changefreq>weekly</changefreq>'' @ [CHR 0x0A] @
     ''        <priority>0.9</priority>'' @ [CHR 0x0A] @
     ''    </url>'' @ [CHR 0x0A] @
     ''</urlset>'' @ [CHR 0x0A]\<close>

definition prepare_build_directory :: "fs \<Rightarrow> unit run" where
  "prepare_build_directory fs =
     then_do (lift_fs fs (open_write fs build_dir ''.nojekyll'' (Text [])))
       (\<lambda>fs. then_do (lift_fs fs (open_write fs build_dir ''robots.txt'' (Text robots_txt)))
         (\<lambda>fs. lift_fs fs (open_write fs build_dir ''sitemap.xml'' (Text sitemap_xml))))"

definition optimize_static_files :: "fs \<Rightarrow> unit run" where
  "optimize_static_files fs =
     (Inr (), fs, [''Optimizing static files...'', ''Static file optimization complete.''])"

definition required_files :: "string list" where
  "required_files =
     [''index.html'', ''about/index.html'', ''where-to-buy/index.html'',
      ''static/css/style.css'', ''static/js/main.js'']"

definition missing_files :: "fs \<Rightarrow> string list" where
  "missing_files fs =
     filter (\<lambda>file_path. \<not> path_exists fs (path_join build_dir file_path)) required_files"

definition cross_mark :: string where
  "cross_mark = [CHR 0xE2, CHR 0x9D, CHR 0x8C]"

definition check_mark :: string where
  "check_mark = [CHR 0xE2, CHR 0x9C, CHR 0x85]"

definition validate_build :: "fs \<Rightarrow> bool run" where
  "validate_build fs =
     (if missing_files fs \<noteq> [] then
        (Inr False, fs,
         (cross_mark @ '' Missing files in build:'') #
         map (\<lambda>file_path. ''  - '' @ file_path) (missing_files fs))
      else (Inr True, fs, [check_mark @ '' All required files generated successfully!'']))"

definition clean_build_directory :: "fs \<Rightarrow> unit run" where
  "clean_build_directory fs =
     (if path_exists fs build_dir then
        then_do (say (''Cleaning existing build directory: '' @ build_dir) fs)
          (\<lambda>fs. then_do (lift_fs fs (rmtree fs build_dir))
            (\<lambda>fs. lift_fs fs (makedirs fs build_dir)))
      else lift_fs fs (makedirs fs build_dir))"

definition the_deployment_info :: "runtime \<Rightarrow> deployment_info" where
  \<open>the_deployment_info rt =
     \<lparr>generated_at = now_isoformat rt,
      python_version = sys_version rt,
      flask_version = flask_dunder_version rt,
      pages_generated = [''/'', ''/about'', ''/where-to-buy''],
      deployment_target = ''GitHub Pages'',
      instructions =
        [''1. Commit all files in the build/ directory to your repository'',
         ''2. Push to the main branch'',
         ''3. Enable GitHub Pages in repository settings'',
         ''4. Set source to "Deploy from a branch" and select "main" branch'',
         ''5. Your site will be available at https://yourusername.github.io/repository-name/'']\<rparr>\<close>

definition generate_deployment_info :: "runtime \<Rightarrow> fs \<Rightarrow> unit run" where
  "generate_deployment_info rt fs =
     lift_fs fs (open_write fs build_dir ''deployment-info.json'' (Json (the_deployment_info rt)))"

text \<open>
  The names that app.py binds at module level; \<open>from app import name\<close> raises
  ImportError for any other name.
\<close>

definition app_module_names :: "string list" where
  "app_module_names =
     [''Flask'', ''render_template'', ''request'', ''redirect'', ''url_for'', ''flash'',
      ''sqlite3'', ''os'', ''app'', ''DATABASE'', ''get_db_connection'', ''get_site_settings'',
      ''get_page'', ''get_page_content'', ''get_retailers_by_category'', ''get_all_retailers'',
      ''get_testimonials'', ''strftime_filter'', ''inject_global_vars'', ''index'', ''about'',
      ''where_to_buy'', ''admin'', ''not_found'', ''internal_error'', ''get_local_ip'']"

definition from_app_import :: "string \<Rightarrow> 'a \<Rightarrow> pyexn + 'a" where
  "from_app_import name obj =
     (if name \<in> set app_module_names then Inr obj
      else Inl (Import_Error (''cannot import name '' @ name @ '' from app'')))"

text \<open>
  What lies outside freeze.py and app.py: the function that \<open>from app import init_db\<close>
  would bind if app.py defined it, \<open>freezer.freeze()\<close> of Frozen-Flask (which requests
  the URLs of the generators \<open>static_files\<close> and \<open>all_pages\<close> and writes the responses
  under the build directory), and the clock and version strings.
\<close>

record world =
  init_db :: "fs \<Rightarrow> pyexn + fs"
  freeze :: "fs \<Rightarrow> pyexn + fs"
  rt :: runtime

definition rocket :: string where
  "rocket = [CHR 0xF0, CHR 0x9F, CHR 0x9A, CHR 0x80]"

definition page_facing_up :: string where
  "page_facing_up = [CHR 0xF0, CHR 0x9F, CHR 0x93, CHR 0x84]"

definition party_popper :: string where
  "party_popper = [CHR 0xF0, CHR 0x9F, CHR 0x8E, CHR 0x89]"

definition file_folder :: string where
  "file_folder = [CHR 0xF0, CHR 0x9F, CHR 0x93, CHR 0x81]"

definition clipboard :: string where
  "clipboard = [CHR 0xF0, CHR 0x9F, CHR 0x93, CHR 0x8B]"

definition globe :: string where
  "globe = [CHR 0xF0, CHR 0x9F, CHR 0x8C, CHR 0x90]"

definition success_lines :: "string list" where
  "success_lines =
     [[CHR 0x0A] @ party_popper @ '' Static site generation completed successfully!'',
      file_folder @ '' Files generated in: '' @ build_dir @ ''/'',
      [CHR 0x0A] @ clipboard @ '' Next steps:'',
      ''1. Review the generated files in the build/ directory'',
      ''2. Test the site by opening build/index.html in a browser'',
      ''3. Commit and push the build/ directory to GitHub'',
      ''4. Configure GitHub Pages to serve from the main branch'',
      [CHR 0x0A] @ globe @
        '' Your site will be live at: https://yourusername.github.io/repository-name/'']"

definition failure_line :: string where
  "failure_line =
     [CHR 0x0A] @ cross_mark @ '' Build validation failed. Please check the errors above.''"

text \<open>The body of \<open>main\<close> after the import statement, with \<open>init_db\<close> bound to \<open>f\<close>.\<close>

definition main_body :: "world \<Rightarrow> (fs \<Rightarrow> pyexn + fs) \<Rightarrow> fs \<Rightarrow> int run" where
  "main_body w f fs =
     then_do (lift_fs fs (f fs))
       (\<lambda>fs. then_do (clean_build_directory fs)
         (\<lambda>fs. then_do (say (page_facing_up @ '' Generating static HTML files...'') fs)
           (\<lambda>fs. then_do (lift_fs fs (freeze w fs))
             (\<lambda>fs. then_do (prepare_build_directory fs)
               (\<lambda>fs. then_do (optimize_static_files fs)
                 (\<lambda>fs. then_do (generate_deployment_info (rt w) fs)
                   (\<lambda>fs. case validate_build fs of
                            (Inl x, fs', out) \<Rightarrow> (Inl x, fs', out)
                          | (Inr ok, fs', out) \<Rightarrow>
                              (if ok then (Inr 0, fs', out @ success_lines)
                               else (Inr 1, fs', out @ [failure_line])))))))))"

definition main :: "world \<Rightarrow> fs \<Rightarrow> int run" where
  "main w fs =
     then_do (say (rocket @ '' Starting static site generation for Freak 'n Fries...'') fs)
       (\<lambda>fs. case from_app_import ''init_db'' (init_db w) of
                Inl x \<Rightarrow> (Inl x, fs, [])
              | Inr f \<Rightarrow> main_body w f fs)"

text \<open>\<open>exit(main())\<close>: the value returned, or 1 when an exception reaches the top.\<close>

definition exit_status :: "int run \<Rightarrow> int" where
  "exit_status r = (case fst r of Inl x \<Rightarrow> 1 | Inr n \<Rightarrow> n)"

section \<open>Auxiliary notions and example states\<close>

text \<open>The rows of a table as the result rows of a \<open>SELECT *\<close> without conditions.\<close>

definition table_rows :: "table \<Rightarrow> row list" where
  "table_rows t = map (stored_row (tcolumns t)) (trows t)"

text \<open>
  The dictionary that the first loop of method 2 leaves for key/value rows: a later row
  overwrites an earlier one with the same key.
\<close>

definition pairs_dict :: "row list \<Rightarrow> settings" where
  "pairs_dict rs = map_of (rev (map (\<lambda>r. (cell r ''key'', cell r ''value'')) rs))"

text \<open>Reading one key of what \<open>get_site_settings\<close> returned.\<close>

definition setting_of :: "(pyexn + settings) \<times> event list \<Rightarrow> sqlval \<Rightarrow> sqlval option" where
  "setting_of res k = (case fst res of Inl x \<Rightarrow> None | Inr s \<Rightarrow> s k)"

text \<open>A settings table of the primary shape: no email and no product name column, a NULL
  tagline and an empty phone number.\<close>

definition ex_primary_table :: table where
  "ex_primary_table =
     \<lparr>tcolumns = [''id'', ''company_name'', ''tagline'', ''phone''],
      trows = [(\<lambda>c. SNull)(''id'' := SInt 1, ''company_name'' := SText ''Acme Fries'',
                             ''phone'' := SText [])]\<rparr>"

definition ex_primary_row :: row where
  "ex_primary_row =
     [(''id'', SInt 1), (''company_name'', SText ''Acme Fries''), (''tagline'', SNull),
      (''phone'', SText [])]"

definition ex_primary_env :: env where
  "ex_primary_env =
     \<lparr>connect_fault = None, query_fault = (\<lambda>q. None),
      tables = [''settings'' \<mapsto> ex_primary_table]\<rparr>"

text \<open>A settings table of the key/value shape with a key of its own and an empty value.\<close>

definition ex_pairs_table :: table where
  "ex_pairs_table =
     \<lparr>tcolumns = [''key'', ''value''],
      trows = [(\<lambda>c. SNull)(''key'' := SText ''theme'', ''value'' := SText ''dark''),
               (\<lambda>c. SNull)(''key'' := SText ''phone'', ''value'' := SText [])]\<rparr>"

definition ex_pairs_rows :: "row list" where
  "ex_pairs_rows =
     [[(''key'', SText ''theme''), (''value'', SText ''dark'')],
      [(''key'', SText ''phone''), (''value'', SText [])]]"

definition ex_pairs_env :: env where
  "ex_pairs_env =
     \<lparr>connect_fault = None, query_fault = (\<lambda>q. None),
      tables = [''settings'' \<mapsto> ex_pairs_table]\<rparr>"

text \<open>A key/value table whose columns are declared as \<open>Key\<close> and \<open>Value\<close>.\<close>

definition ex_mixed_case_table :: table where
  "ex_mixed_case_table =
     \<lparr>tcolumns = [''Key'', ''Value''],
      trows = [(\<lambda>c. SNull)(''Key'' := SText ''theme'', ''Value'' := SText ''dark'')]\<rparr>"

definition ex_mixed_case_env :: env where
  "ex_mixed_case_env =
     \<lparr>connect_fault = None, query_fault = (\<lambda>q. None),
      tables = [''settings'' \<mapsto> ex_mixed_case_table]\<rparr>"


text \<open>A database file that cannot be opened (its directory does not exist).\<close>

definition ex_unreachable_env :: env where
  "ex_unreachable_env =
     \<lparr>connect_fault = Some (Sqlite3_Error ''unable to open database file''),
      query_fault = (\<lambda>q. None), tables = Map.empty\<rparr>"

text \<open>A site with pages, retailers and testimonials, and neither settings nor page content.\<close>

definition ex_pages_table :: table where
  "ex_pages_table =
     \<lparr>tcolumns = [''slug'', ''title''],
      trows = [(\<lambda>c. SNull)(''slug'' := SText ''about'', ''title'' := SText ''About us'')]\<rparr>"

definition ex_retailers_table :: table where
  "ex_retailers_table =
     \<lparr>tcolumns = [''name'', ''category''],
      trows = [(\<lambda>c. SNull)(''name'' := SText ''Beta Store'', ''category'' := SText ''online''),
               (\<lambda>c. SNull)(''name'' := SText ''Gamma Grill'', ''category'' := SText ''restaurant''),
               (\<lambda>c. SNull)(''name'' := SText ''Alpha Store'', ''category'' := SText ''online'')]\<rparr>"

definition ex_testimonials_table :: table where
  "ex_testimonials_table =
     \<lparr>tcolumns = [''active'', ''text''],
      trows = [(\<lambda>c. SNull)(''active'' := SInt 1, ''text'' := SText ''Great!''),
               (\<lambda>c. SNull)(''active'' := SInt 0, ''text'' := SText ''Meh'')]\<rparr>"

definition ex_site_env :: env where
  "ex_site_env =
     \<lparr>connect_fault = None, query_fault = (\<lambda>q. None),
      tables = [''pages'' \<mapsto> ex_pages_table, ''retailers'' \<mapsto> ex_retailers_table,
                ''testimonials'' \<mapsto> ex_testimonials_table]\<rparr>"

text \<open>A renderer that shows the text of the testimonial it is given.\<close>

definition ex_renderer :: renderer where
  "ex_renderer name ctx =
     (case map_of ctx ''testimonial'' of
        Some (TRow (Some r)) \<Rightarrow> (case cell r ''text'' of SText t \<Rightarrow> Inr t | _ \<Rightarrow> Inr [])
      | _ \<Rightarrow> Inr [])"

text \<open>File systems and a world for the exporter: a freezer that writes the three pages and
  the two assets, and an \<open>init_db\<close> that changes no file.\<close>

definition ex_runtime :: runtime where
  "ex_runtime =
     \<lparr>now_isoformat = ''2025-01-01T00:00:00'', sys_version = ''3.11.4'',
      flask_dunder_version = ''2.3.2''\<rparr>"

definition ex_pages :: fs where
  "ex_pages =
     [''build/index.html'' \<mapsto> File (Text ''<html>home</html>''),
      ''build/about'' \<mapsto> Dir,
      ''build/about/index.html'' \<mapsto> File (Text ''<html>about</html>''),
      ''build/where-to-buy'' \<mapsto> Dir,
      ''build/where-to-buy/index.html'' \<mapsto> File (Text ''<html>where</html>''),
      ''build/static'' \<mapsto> Dir,
      ''build/static/css'' \<mapsto> Dir,
      ''build/static/css/style.css'' \<mapsto> File (Text ''body {}''),
      ''build/static/js'' \<mapsto> Dir,
      ''build/static/js/main.js'' \<mapsto> File (Text ''// js'')]"

definition ex_world :: world where
  "ex_world =
     \<lparr>init_db = (\<lambda>fs. Inr fs), freeze = (\<lambda>fs. Inr (fs ++ ex_pages)), rt = ex_runtime\<rparr>"

definition ex_fs_complete :: fs where
  "ex_fs_complete = [''build'' \<mapsto> Dir] ++ ex_pages"

definition ex_fs_stale :: fs where
  "ex_fs_stale = [''build'' \<mapsto> Dir, ''build/old.html'' \<mapsto> File (Text ''stale'')]"

definition starting_line :: string where
  "starting_line = rocket @ '' Starting static site generation for Freak 'n Fries...''"

section \<open>Facts about the statements\<close>

lemma ci_eq_refl [simp]: "ci_eq c c"
  by (simp add: ci_eq_def)

lemma lower_ascii_letters [simp]:
  "lower_ascii CHR ''a'' = CHR ''a''"
  "lower_ascii CHR ''b'' = CHR ''b''"
  "lower_ascii CHR ''c'' = CHR ''c''"
  "lower_ascii CHR ''d'' = CHR ''d''"
  "lower_ascii CHR ''e'' = CHR ''e''"
  "lower_ascii CHR ''f'' = CHR ''f''"
  "lower_ascii CHR ''g'' = CHR ''g''"
  "lower_ascii CHR ''h'' = CHR ''h''"
  "lower_ascii CHR ''i'' = CHR ''i''"
  "lower_ascii CHR ''j'' = CHR ''j''"
  "lower_ascii CHR ''k'' = CHR ''k''"
  "lower_ascii CHR ''l'' = CHR ''l''"
  "lower_ascii CHR ''m'' = CHR ''m''"
  "lower_ascii CHR ''n'' = CHR ''n''"
  "lower_ascii CHR ''o'' = CHR ''o''"
  "lower_ascii CHR ''p'' = CHR ''p''"
  "lower_ascii CHR ''q'' = CHR ''q''"
  "lower_ascii CHR ''r'' = CHR ''r''"
  "lower_ascii CHR ''s'' = CHR ''s''"
  "lower_ascii CHR ''t'' = CHR ''t''"
  "lower_ascii CHR ''u'' = CHR ''u''"
  "lower_ascii CHR ''v'' = CHR ''v''"
  "lower_ascii CHR ''w'' = CHR ''w''"
  "lower_ascii CHR ''x'' = CHR ''x''"
  "lower_ascii CHR ''y'' = CHR ''y''"
  "lower_ascii CHR ''z'' = CHR ''z''"
  "lower_ascii CHR ''_'' = CHR ''_''"
  "lower_ascii CHR ''A'' = CHR ''a''"
  "lower_ascii CHR ''B'' = CHR ''b''"
  "lower_ascii CHR ''C'' = CHR ''c''"
  "lower_ascii CHR ''D'' = CHR ''d''"
  "lower_ascii CHR ''E'' = CHR ''e''"
  "lower_ascii CHR ''F'' = CHR ''f''"
  "lower_ascii CHR ''G'' = CHR ''g''"
  "lower_ascii CHR ''H'' = CHR ''h''"
  "lower_ascii CHR ''I'' = CHR ''i''"
  "lower_ascii CHR ''J'' = CHR ''j''"
  "lower_ascii CHR ''K'' = CHR ''k''"
  "lower_ascii CHR ''L'' = CHR ''l''"
  "lower_ascii CHR ''M'' = CHR ''m''"
  "lower_ascii CHR ''N'' = CHR ''n''"
  "lower_ascii CHR ''O'' = CHR ''o''"
  "lower_ascii CHR ''P'' = CHR ''p''"
  "lower_ascii CHR ''Q'' = CHR ''q''"
  "lower_ascii CHR ''R'' = CHR ''r''"
  "lower_ascii CHR ''S'' = CHR ''s''"
  "lower_ascii CHR ''T'' = CHR ''t''"
  "lower_ascii CHR ''U'' = CHR ''u''"
  "lower_ascii CHR ''V'' = CHR ''v''"
  "lower_ascii CHR ''W'' = CHR ''w''"
  "lower_ascii CHR ''X'' = CHR ''x''"
  "lower_ascii CHR ''Y'' = CHR ''y''"
  "lower_ascii CHR ''Z'' = CHR ''z''"
  by (simp_all add: lower_ascii_def)

lemma has_column_exact: "c \<in> set (tcolumns t) \<Longrightarrow> has_column t c"
  unfolding has_column_def list_ex_iff using ci_eq_refl by blast

lemma sql_eq_text [simp]: "sql_eq a (SText c) = (a = SText c)"
  by (auto simp: sql_eq_def)

lemma sql_eq_int [simp]: "sql_eq a (SInt i) = (a = SInt i)"
  by (auto simp: sql_eq_def)

lemma set_order_by [simp]: "set (order_by cs rs) = set rs"
  by (simp add: order_by_def)

lemma mset_order_by [simp]: "mset (order_by cs rs) = mset rs"
  by (simp add: order_by_def)

lemma order_by_Nil [simp]: "order_by [] rs = rs"
  unfolding order_by_def by (induction rs) (auto simp: sort_key_def insort_is_Cons)

lemma project_Star [simp]: "map (project Star) rs = rs"
  by (induction rs) (auto simp: project_def)

lemma fetchone_Nil [simp]: "fetchone [] = None"
  by (simp add: fetchone_def)

lemma row_keys_stored_row [simp]: "row_keys (stored_row cs f) = cs"
  by (simp add: row_keys_def stored_row_def comp_def)

lemma run_query_Inr:
  assumes "run_query db (Select sel tbl w ord) = Inr rs"
  obtains t where "db (map lower_ascii tbl) = Some t"
    "\<forall>c \<in> set (referenced sel w ord). has_column t c"
    "rs = map (project sel) (order_by ord (where_clause w (table_rows t)))"
  using assms
  by (auto simp: table_rows_def find_None_iff split: option.splits)

lemma run_query_ok:
  assumes "db (map lower_ascii tbl) = Some t"
    and "set (referenced sel w ord) \<subseteq> set (tcolumns t)"
  shows "run_query db (Select sel tbl w ord) =
           Inr (map (project sel) (order_by ord (where_clause w (table_rows t))))"
proof -
  have "find (\<lambda>c. \<not> has_column t c) (referenced sel w ord) = None"
    using assms(2) by (auto simp: find_None_iff has_column_exact)
  then show ?thesis using assms(1) by (simp add: table_rows_def)
qed

lemma execute_Inr:
  assumes "execute e q = Inr rs"
  shows "query_fault e q = None \<and> run_query (tables e) q = Inr rs"
  using assms by (auto simp: execute_def split: option.splits)

lemma select_where_ok:
  assumes "query_fault e (Select Star tbl (Some (c, v)) []) = None"
    and "tables e (map lower_ascii tbl) = Some t" and "c \<in> set (tcolumns t)"
  shows "execute e (Select Star tbl (Some (c, v)) []) =
           Inr (filter (\<lambda>r. sql_eq (cell r c) v) (table_rows t))"
  using assms run_query_ok [of "tables e" tbl t Star "Some (c, v)" "[]"]
  by (simp add: execute_def referenced_def where_clause_def del: run_query.simps)

section \<open>Settings resolution\<close>

lemma dom_default_settings: "dom default_settings = recognized_keys"
  by (auto simp: default_settings_def recognized_keys_def)

lemma dom_settings_of_row: "dom (settings_of_row r) = recognized_keys"
  by (auto simp: settings_of_row_def recognized_keys_def)

lemma dom_collect_pairs:
  "dom (collect_pairs s rs) = dom s \<union> (\<lambda>r. cell r ''key'') ` set rs"
  by (induction rs arbitrary: s) auto

lemma dom_fill_defaults:
  "dom (fill_defaults s kds) = dom s \<union> (\<lambda>kd. SText (fst kd)) ` set kds"
  by (induction s kds rule: fill_defaults.induct) auto

lemma defaults_keys: "(\<lambda>kd. SText (fst kd)) ` set defaults = recognized_keys"
  by (auto simp: defaults_def recognized_keys_def)

lemma dom_settings_of_pairs:
  "dom (settings_of_pairs rs) = recognized_keys \<union> (\<lambda>r. cell r ''key'') ` set rs"
  by (auto simp: settings_of_pairs_def dom_fill_defaults dom_collect_pairs defaults_keys)

lemma default_settings_defaults:
  "(k, d) \<in> set defaults \<Longrightarrow> default_settings (SText k) = Some (SText d)"
  by (auto simp: defaults_def default_settings_def)

lemma defaults_nonempty: "(k, d) \<in> set defaults \<Longrightarrow> d \<noteq> []"
  by (auto simp: defaults_def product_name_default_def)

lemma settings_of_row_defaults:
  "(k, d) \<in> set defaults \<Longrightarrow>
   settings_of_row r (SText k) = Some (if k \<in> set (row_keys r) then cell r k else SText d)"
  by (auto simp: defaults_def settings_of_row_def)





lemma q_settings_row_nonempty:
  assumes "execute e q_settings_row = Inr rs" "r \<in> set rs"
  shows "r \<noteq> []"
proof -
  from assms(1)
  have "run_query (tables e) (Select Star ''settings'' (Some (''id'', SInt 1)) []) = Inr rs"
    using execute_Inr [of e q_settings_row rs]
    by (simp add: q_settings_row_def del: run_query.simps)
  then obtain t where t: "\<forall>c \<in> set (referenced Star (Some (''id'', SInt 1)) []). has_column t c"
    "rs = map (project Star) (order_by [] (where_clause (Some (''id'', SInt 1)) (table_rows t)))"
    by (rule run_query_Inr)
  from t(1) have "tcolumns t \<noteq> []" by (auto simp: referenced_def has_column_def)
  moreover from t(2) assms(2) have "r \<in> set (table_rows t)"
    by (auto simp: where_clause_def)
  ultimately show ?thesis by (auto simp: table_rows_def stored_row_def)
qed

lemma ex_primary_query:
  "execute ex_primary_env q_settings_row = Inr [ex_primary_row]"
  by (simp add: execute_def ex_primary_env_def q_settings_row_def ex_primary_table_def
        referenced_def where_clause_def stored_row_def cell_def ex_primary_row_def
        project_def has_column_def ci_eq_def)

text \<open>
  C3. When the statement \<open>SELECT * FROM settings WHERE id = 1\<close> succeeds and returns a row,
  \<open>get_site_settings\<close> returns the dictionary built from the first such row: each of the
  five recognized keys has the row's value when the row has that column (a NULL stored
  there is returned as it is) and the built-in default, a text and not NULL, when it has
  not. The call executes that one statement only: the key/value statement is not executed
  and the fallback is not announced.
\<close>

theorem primary_row_wins:
  assumes "connect_fault e = None" and "execute e q_settings_row = Inr (r # rs)"
  shows "get_site_settings e =
           (Inr (settings_of_row r), [Connect, Execute q_settings_row, Close, Close])
         \<and> (\<forall>(k, d) \<in> set defaults.
              settings_of_row r (SText k) =
                Some (if k \<in> set (row_keys r) then cell r k else SText d))
         \<and> dom (settings_of_row r) = recognized_keys
         \<and> Execute q_settings_pairs \<notin> set (snd (get_site_settings e))
         \<and> Print ''Using fallback default values'' \<notin> set (snd (get_site_settings e))"
proof -
  have "r \<noteq> []" using q_settings_row_nonempty [OF assms(2)] by simp
  then have run: "get_site_settings e =
           (Inr (settings_of_row r), [Connect, Execute q_settings_row, Close, Close])"
    using assms by (simp add: get_site_settings_def get_db_connection_def fetchone_def)
  have "q_settings_row \<noteq> q_settings_pairs"
    by (simp add: q_settings_row_def q_settings_pairs_def)
  with run show ?thesis
    by (auto simp: settings_of_row_defaults dom_settings_of_row)
qed

theorem primary_row_wins_witness:
  "connect_fault ex_primary_env = None
   \<and> execute ex_primary_env q_settings_row = Inr [ex_primary_row]
   \<and> get_site_settings ex_primary_env =
       (Inr (settings_of_row ex_primary_row), [Connect, Execute q_settings_row, Close, Close])
   \<and> settings_of_row ex_primary_row (SText ''company_name'') = Some (SText ''Acme Fries'')
   \<and> settings_of_row ex_primary_row (SText ''tagline'') = Some SNull
   \<and> settings_of_row ex_primary_row (SText ''email'') = Some (SText ''info@freaknfries.com'')
   \<and> settings_of_row ex_primary_row (SText ''product_name'') = Some (SText product_name_default)"
proof -
  have c: "connect_fault ex_primary_env = None"
    by (simp add: ex_primary_env_def)
  have vals: "settings_of_row ex_primary_row (SText ''company_name'') = Some (SText ''Acme Fries'')
   \<and> settings_of_row ex_primary_row (SText ''tagline'') = Some SNull
   \<and> settings_of_row ex_primary_row (SText ''email'') = Some (SText ''info@freaknfries.com'')
   \<and> settings_of_row ex_primary_row (SText ''product_name'') = Some (SText product_name_default)"
    by (simp add: settings_of_row_def ex_primary_row_def row_keys_def cell_def ci_eq_def)
  show ?thesis
    using c vals ex_primary_query primary_row_wins [OF c ex_primary_query] by simp
qed

lemma collect_pairs_lookup:
  "collect_pairs s rs x = (case pairs_dict rs x of Some v \<Rightarrow> Some v | None \<Rightarrow> s x)"
proof (induction rs arbitrary: s)
  case Nil
  then show ?case by (simp add: pairs_dict_def)
next
  case (Cons r rs)
  have "pairs_dict (r # rs) x =
          (case pairs_dict rs x of
             Some v \<Rightarrow> Some v
           | None \<Rightarrow> (if x = cell r ''key'' then Some (cell r ''value'') else None))"
    by (simp add: pairs_dict_def map_add_def split: option.splits)
  then show ?case
    by (simp add: Cons.IH split: option.splits)
qed

lemma fill_defaults_lookup:
  "fill_defaults s kds x =
     (case s x of Some v \<Rightarrow> Some v
      | None \<Rightarrow> map_of (map (\<lambda>kd. (SText (fst kd), SText (snd kd))) kds) x)"
  by (induction s kds rule: fill_defaults.induct) (auto split: option.splits)

lemma map_of_defaults:
  "map_of (map (\<lambda>kd. (SText (fst kd), SText (snd kd))) defaults) x = default_settings x"
  by (simp add: defaults_def default_settings_def)

lemma settings_of_pairs_lookup:
  "settings_of_pairs rs x =
     (case pairs_dict rs x of Some v \<Rightarrow> Some v | None \<Rightarrow> default_settings x)"
  by (simp add: settings_of_pairs_def fill_defaults_lookup collect_pairs_lookup map_of_defaults
           split: option.splits)

lemma settings_method2_result:
  "fst (settings_method2 e tr) =
     Inr (case execute e q_settings_pairs of
            Inr rs \<Rightarrow> if rs \<noteq> [] then settings_of_pairs rs else default_settings
          | Inl x \<Rightarrow> default_settings)"
  by (simp add: settings_method2_def split: sum.splits pyexn.splits)

lemma get_site_settings_result:
  assumes "connect_fault e = None"
  shows "fst (get_site_settings e) =
     Inr (case execute e q_settings_row of
            Inr (r # rs) \<Rightarrow> settings_of_row r
          | Inr [] \<Rightarrow>
              (case execute e q_settings_pairs of
                 Inr rs \<Rightarrow> if rs \<noteq> [] then settings_of_pairs rs else default_settings
               | Inl x \<Rightarrow> default_settings)
          | Inl (Sqlite3_Error m) \<Rightarrow>
              (case execute e q_settings_pairs of
                 Inr rs \<Rightarrow> if rs \<noteq> [] then settings_of_pairs rs else default_settings
               | Inl x \<Rightarrow> default_settings)
          | Inl x \<Rightarrow> default_settings)"
proof (cases "execute e q_settings_row")
  case (Inl x)
  then show ?thesis using assms
    by (cases x)
       (simp_all add: get_site_settings_def get_db_connection_def settings_method2_result)
next
  case (Inr rs)
  show ?thesis
  proof (cases rs)
    case Nil
    with Inr show ?thesis using assms
      by (simp add: get_site_settings_def get_db_connection_def settings_method2_result)
  next
    case (Cons r rs')
    moreover have "r \<noteq> []"
      using q_settings_row_nonempty [of e rs r] Inr Cons by simp
    ultimately show ?thesis using Inr assms
      by (simp add: get_site_settings_def get_db_connection_def fetchone_def)
  qed
qed

lemma ex_pairs_queries:
  "execute ex_pairs_env q_settings_row = Inl (Sqlite3_Error ''no such column: id'')"
  "execute ex_pairs_env q_settings_pairs = Inr ex_pairs_rows"
  by (simp_all add: execute_def ex_pairs_env_def q_settings_row_def q_settings_pairs_def
        ex_pairs_table_def referenced_def where_clause_def stored_row_def cell_def
        column_name_def project_def ex_pairs_rows_def has_column_def ci_eq_def)

lemma ex_pairs_run:
  "get_site_settings ex_pairs_env =
     (Inr (settings_of_pairs ex_pairs_rows),
      [Connect, Execute q_settings_row, Print ''Method 1 failed: no such column: id'',
       Execute q_settings_pairs, Close, Close])"
proof -
  have "connect_fault ex_pairs_env = None" "ex_pairs_rows \<noteq> []"
    by (simp_all add: ex_pairs_env_def ex_pairs_rows_def)
  then show ?thesis
    by (simp add: get_site_settings_def get_db_connection_def settings_method2_def
          ex_pairs_queries)
qed

text \<open>Columns declared as \<open>Key\<close> and \<open>Value\<close> serve method 2 as well.\<close>

lemma ex_mixed_case_run:
  "execute ex_mixed_case_env q_settings_pairs =
     Inr [[(''Key'', SText ''theme''), (''Value'', SText ''dark'')]]
   \<and> setting_of (get_site_settings ex_mixed_case_env) (SText ''theme'') = Some (SText ''dark'')"
proof -
  have q: "execute ex_mixed_case_env q_settings_row = Inl (Sqlite3_Error ''no such column: id'')"
    "execute ex_mixed_case_env q_settings_pairs =
       Inr [[(''Key'', SText ''theme''), (''Value'', SText ''dark'')]]"
    by (simp_all add: execute_def ex_mixed_case_env_def q_settings_row_def q_settings_pairs_def
        ex_mixed_case_table_def referenced_def where_clause_def stored_row_def cell_def
        column_name_def project_def has_column_def ci_eq_def)
  have "connect_fault ex_mixed_case_env = None"
    by (simp add: ex_mixed_case_env_def)
  then have "fst (get_site_settings ex_mixed_case_env) =
               Inr (settings_of_pairs [[(''Key'', SText ''theme''), (''Value'', SText ''dark'')]])"
    by (simp add: get_site_settings_result q)
  then show ?thesis
    by (simp add: q setting_of_def settings_of_pairs_lookup pairs_dict_def cell_def ci_eq_def)
qed

text \<open>
  C2, as stated, fails: with key/value rows \<open>(theme, dark)\<close> and \<open>(phone, '')\<close> the
  dictionary returned has the key \<open>theme\<close>, which is none of the five, and an empty phone
  number.
\<close>

theorem exactly_five_nonempty_counterexample:
  "setting_of (get_site_settings ex_pairs_env) (SText ''theme'') = Some (SText ''dark'')
   \<and> SText ''theme'' \<notin> recognized_keys
   \<and> setting_of (get_site_settings ex_pairs_env) (SText ''phone'') = Some (SText [])"
  by (simp add: ex_pairs_run setting_of_def settings_of_pairs_lookup pairs_dict_def
        ex_pairs_rows_def cell_def ci_eq_def  recognized_keys_def)

text \<open>
  C2, amended. Once the connection is open, for every state of the store and every outcome
  of the statements \<open>get_site_settings\<close> returns a dictionary that contains the five
  recognized keys, and the dictionary is determined by the path taken.
  When the statement for the row with \<open>id = 1\<close> returns a row, the key set is exactly the
  five and each key has the first row's value if the row has that column and the built-in
  default if not.
  When that statement returns no row or raises a \<open>sqlite3.Error\<close>, and the key/value
  statement returns rows, the key set is the five together with the keys of those rows;
  every key of the rows has the value of the last row with that key, and every other
  recognized key its built-in default.
  In every other case the dictionary is the built-in defaults.
  The built-in defaults have exactly the five keys and none is empty; values read from the
  store are returned as they are, empty or NULL included.
\<close>

theorem settings_keys_and_values:
  assumes "connect_fault e = None"
  shows "\<exists>s tr. get_site_settings e = (Inr s, tr)
     \<and> recognized_keys \<subseteq> dom s
     \<and> (\<forall>r rs. execute e q_settings_row = Inr (r # rs) \<longrightarrow>
          dom s = recognized_keys
          \<and> (\<forall>(k, d) \<in> set defaults.
                s (SText k) = Some (if k \<in> set (row_keys r) then cell r k else SText d)))
     \<and> (\<forall>rs. (execute e q_settings_row = Inr []
               \<or> (\<exists>m. execute e q_settings_row = Inl (Sqlite3_Error m)))
             \<and> execute e q_settings_pairs = Inr rs \<and> rs \<noteq> [] \<longrightarrow>
          dom s = recognized_keys \<union> (\<lambda>r. cell r ''key'') ` set rs
          \<and> (\<forall>x. s x = (case pairs_dict rs x of
                           Some v \<Rightarrow> Some v
                         | None \<Rightarrow> default_settings x)))
     \<and> ((\<exists>x. execute e q_settings_row = Inl x \<and> (\<forall>m. x \<noteq> Sqlite3_Error m))
        \<or> ((execute e q_settings_row = Inr []
              \<or> (\<exists>m. execute e q_settings_row = Inl (Sqlite3_Error m)))
            \<and> (\<forall>rs. execute e q_settings_pairs = Inr rs \<longrightarrow> rs = [])) \<longrightarrow>
          s = default_settings)
     \<and> dom default_settings = recognized_keys
     \<and> (\<forall>(k, d) \<in> set defaults. d \<noteq> [] \<and> default_settings (SText k) = Some (SText d))"
proof -
  define s where "s =
     (case execute e q_settings_row of
            Inr (r # rs) \<Rightarrow> settings_of_row r
          | Inr [] \<Rightarrow>
              (case execute e q_settings_pairs of
                 Inr rs \<Rightarrow> if rs \<noteq> [] then settings_of_pairs rs else default_settings
               | Inl x \<Rightarrow> default_settings)
          | Inl (Sqlite3_Error m) \<Rightarrow>
              (case execute e q_settings_pairs of
                 Inr rs \<Rightarrow> if rs \<noteq> [] then settings_of_pairs rs else default_settings
               | Inl x \<Rightarrow> default_settings)
          | Inl x \<Rightarrow> default_settings)"
  have "fst (get_site_settings e) = Inr s"
    unfolding s_def by (rule get_site_settings_result [OF assms])
  then have run: "get_site_settings e = (Inr s, snd (get_site_settings e))"
    by (metis prod.collapse)
  have keys: "recognized_keys \<subseteq> dom s"
    unfolding s_def
    by (auto simp: dom_default_settings dom_settings_of_row dom_settings_of_pairs
             split: sum.splits list.splits pyexn.splits)
  have row: "\<forall>r rs. execute e q_settings_row = Inr (r # rs) \<longrightarrow>
          dom s = recognized_keys
          \<and> (\<forall>(k, d) \<in> set defaults.
                s (SText k) = Some (if k \<in> set (row_keys r) then cell r k else SText d))"
    unfolding s_def by (auto simp: dom_settings_of_row settings_of_row_defaults)
  have pairs: "\<forall>rs. (execute e q_settings_row = Inr []
               \<or> (\<exists>m. execute e q_settings_row = Inl (Sqlite3_Error m)))
             \<and> execute e q_settings_pairs = Inr rs \<and> rs \<noteq> [] \<longrightarrow>
          dom s = recognized_keys \<union> (\<lambda>r. cell r ''key'') ` set rs
          \<and> (\<forall>x. s x = (case pairs_dict rs x of
                           Some v \<Rightarrow> Some v
                         | None \<Rightarrow> default_settings x))"
  proof (intro allI impI)
    fix rs
    assume a: "(execute e q_settings_row = Inr []
               \<or> (\<exists>m. execute e q_settings_row = Inl (Sqlite3_Error m)))
             \<and> execute e q_settings_pairs = Inr rs \<and> rs \<noteq> []"
    then have "s = settings_of_pairs rs"
      unfolding s_def by auto
    then show "dom s = recognized_keys \<union> (\<lambda>r. cell r ''key'') ` set rs
          \<and> (\<forall>x. s x = (case pairs_dict rs x of
                           Some v \<Rightarrow> Some v
                         | None \<Rightarrow> default_settings x))"
      by (simp add: dom_settings_of_pairs settings_of_pairs_lookup)
  qed
  have other: "(\<exists>x. execute e q_settings_row = Inl x \<and> (\<forall>m. x \<noteq> Sqlite3_Error m))
        \<or> ((execute e q_settings_row = Inr []
              \<or> (\<exists>m. execute e q_settings_row = Inl (Sqlite3_Error m)))
            \<and> (\<forall>rs. execute e q_settings_pairs = Inr rs \<longrightarrow> rs = [])) \<longrightarrow>
          s = default_settings"
    unfolding s_def by (auto split: sum.splits pyexn.splits)
  have dflt: "\<forall>(k, d) \<in> set defaults. d \<noteq> [] \<and> default_settings (SText k) = Some (SText d)"
    by (auto simp: default_settings_defaults dest: defaults_nonempty)
  show ?thesis
    by (intro exI [of _ s] exI [of _ "snd (get_site_settings e)"] conjI
          run keys row pairs other dflt dom_default_settings)
qed

theorem settings_keys_and_values_witness:
  "connect_fault ex_pairs_env = None
   \<and> execute ex_pairs_env q_settings_row = Inl (Sqlite3_Error ''no such column: id'')
   \<and> execute ex_pairs_env q_settings_pairs = Inr ex_pairs_rows
   \<and> ex_pairs_rows \<noteq> []
   \<and> get_site_settings ex_pairs_env =
       (Inr (settings_of_pairs ex_pairs_rows),
        [Connect, Execute q_settings_row, Print ''Method 1 failed: no such column: id'',
         Execute q_settings_pairs, Close, Close])
   \<and> dom (settings_of_pairs ex_pairs_rows) =
       recognized_keys \<union> {SText ''theme'', SText ''phone''}
   \<and> settings_of_pairs ex_pairs_rows (SText ''theme'') = Some (SText ''dark'')
   \<and> settings_of_pairs ex_pairs_rows (SText ''company_name'') = Some (SText ''Freak-n-Fries'')"
proof -
  have c: "connect_fault ex_pairs_env = None"
    by (simp add: ex_pairs_env_def)
  have n: "ex_pairs_rows \<noteq> []"
    by (simp add: ex_pairs_rows_def)
  have k: "(\<lambda>r. cell r ''key'') ` set ex_pairs_rows = {SText ''theme'', SText ''phone''}"
    by (simp add: ex_pairs_rows_def cell_def ci_eq_def)
  have d: "pairs_dict ex_pairs_rows (SText ''theme'') = Some (SText ''dark'')"
    "pairs_dict ex_pairs_rows (SText ''company_name'') = None"
    "default_settings (SText ''company_name'') = Some (SText ''Freak-n-Fries'')"
    by (simp_all add: pairs_dict_def ex_pairs_rows_def cell_def ci_eq_def 
          default_settings_def)
  from settings_keys_and_values [OF c]
  obtain s tr where s: "get_site_settings ex_pairs_env = (Inr s, tr)"
    and p: "\<forall>rs. (execute ex_pairs_env q_settings_row = Inr []
               \<or> (\<exists>m. execute ex_pairs_env q_settings_row = Inl (Sqlite3_Error m)))
             \<and> execute ex_pairs_env q_settings_pairs = Inr rs \<and> rs \<noteq> [] \<longrightarrow>
          dom s = recognized_keys \<union> (\<lambda>r. cell r ''key'') ` set rs
          \<and> (\<forall>x. s x = (case pairs_dict rs x of
                           Some v \<Rightarrow> Some v
                         | None \<Rightarrow> default_settings x))"
    by (elim exE conjE) (rule that)
  from s have eq: "s = settings_of_pairs ex_pairs_rows"
    by (simp add: ex_pairs_run)
  have ante: "(execute ex_pairs_env q_settings_row = Inr []
               \<or> (\<exists>m. execute ex_pairs_env q_settings_row = Inl (Sqlite3_Error m)))
             \<and> execute ex_pairs_env q_settings_pairs = Inr ex_pairs_rows \<and> ex_pairs_rows \<noteq> []"
    using n by (simp add: ex_pairs_queries)
  from spec [OF p, where x = ex_pairs_rows] ante
  have concl: "dom s = recognized_keys \<union> (\<lambda>r. cell r ''key'') ` set ex_pairs_rows
          \<and> (\<forall>x. s x = (case pairs_dict ex_pairs_rows x of
                           Some v \<Rightarrow> Some v
                         | None \<Rightarrow> default_settings x))"
    by (rule mp)
  have "dom (settings_of_pairs ex_pairs_rows) = recognized_keys \<union> {SText ''theme'', SText ''phone''}"
    using concl k unfolding eq by simp
  moreover have "settings_of_pairs ex_pairs_rows (SText ''theme'') = Some (SText ''dark'')"
    using concl d(1) unfolding eq by simp
  moreover have
    "settings_of_pairs ex_pairs_rows (SText ''company_name'') = Some (SText ''Freak-n-Fries'')"
    using concl d(2,3) unfolding eq by simp
  ultimately show ?thesis
    using c n ex_pairs_queries ex_pairs_run by simp
qed

section \<open>Data access\<close>

text \<open>
  C4, as stated, fails: when the database file cannot be opened, \<open>get_db_connection\<close>
  raises before the \<open>try\<close> block is entered, and both functions pass the exception on.
\<close>

theorem connection_error_propagates_counterexample:
  "get_page ex_unreachable_env ''nonexistent-slug'' =
     (Inl (Sqlite3_Error ''unable to open database file''), [Connect])
   \<and> get_page_content ex_unreachable_env ''nonexistent-name'' =
     (Inl (Sqlite3_Error ''unable to open database file''), [Connect])"
  by (simp add: get_page_def get_page_content_def get_db_connection_def ex_unreachable_env_def)

text \<open>
  C4, amended. Once the connection is open: for every slug and every page name, when the
  statement raises a \<open>sqlite3.Error\<close>, \<open>get_page\<close> and \<open>get_page_content\<close> print it,
  close the connection and return the absent value; and when the table has no row whose
  slug (page name) equals the argument, they return the absent value.
\<close>

theorem get_page_error_policy:
  assumes "connect_fault e = None"
  shows "(\<forall>m. execute e (q_page slug) = Inl (Sqlite3_Error m) \<longrightarrow>
            get_page e slug =
              (Inr None, [Connect, Execute (q_page slug),
                          Print (''Error getting page '' @ slug @ '': '' @ m), Close]))
       \<and> (\<forall>m. execute e (q_page_content page_name) = Inl (Sqlite3_Error m) \<longrightarrow>
            get_page_content e page_name =
              (Inr None, [Connect, Execute (q_page_content page_name),
                          Print (''Error getting page content '' @ page_name @ '': '' @ m),
                          Close]))
       \<and> (\<forall>t. query_fault e (q_page slug) = None \<and> tables e ''pages'' = Some t
              \<and> ''slug'' \<in> set (tcolumns t)
              \<and> filter (\<lambda>r. cell r ''slug'' = SText slug) (table_rows t) = [] \<longrightarrow>
            get_page e slug = (Inr None, [Connect, Execute (q_page slug), Close]))
       \<and> (\<forall>t. query_fault e (q_page_content page_name) = None
              \<and> tables e ''page_content'' = Some t
              \<and> ''page_name'' \<in> set (tcolumns t)
              \<and> filter (\<lambda>r. cell r ''page_name'' = SText page_name) (table_rows t) = [] \<longrightarrow>
            get_page_content e page_name =
              (Inr None, [Connect, Execute (q_page_content page_name), Close]))"
proof (intro conjI allI impI)
  fix m assume "execute e (q_page slug) = Inl (Sqlite3_Error m)"
  then show "get_page e slug =
              (Inr None, [Connect, Execute (q_page slug),
                          Print (''Error getting page '' @ slug @ '': '' @ m), Close])"
    using assms by (simp add: get_page_def get_db_connection_def)
next
  fix m assume "execute e (q_page_content page_name) = Inl (Sqlite3_Error m)"
  then show "get_page_content e page_name =
              (Inr None, [Connect, Execute (q_page_content page_name),
                          Print (''Error getting page content '' @ page_name @ '': '' @ m),
                          Close])"
    using assms by (simp add: get_page_content_def get_db_connection_def)
next
  fix t assume "query_fault e (q_page slug) = None \<and> tables e ''pages'' = Some t
              \<and> ''slug'' \<in> set (tcolumns t)
              \<and> filter (\<lambda>r. cell r ''slug'' = SText slug) (table_rows t) = []"
  then have "execute e (q_page slug) = Inr []"
    using select_where_ok [of e "''pages''" "''slug''" "SText slug" t]
    by (simp add: q_page_def)
  then show "get_page e slug = (Inr None, [Connect, Execute (q_page slug), Close])"
    using assms by (simp add: get_page_def get_db_connection_def)
next
  fix t assume "query_fault e (q_page_content page_name) = None
              \<and> tables e ''page_content'' = Some t
              \<and> ''page_name'' \<in> set (tcolumns t)
              \<and> filter (\<lambda>r. cell r ''page_name'' = SText page_name) (table_rows t) = []"
  then have "execute e (q_page_content page_name) = Inr []"
    using select_where_ok [of e "''page_content''" "''page_name''" "SText page_name" t]
    by (simp add: q_page_content_def)
  then show "get_page_content e page_name =
              (Inr None, [Connect, Execute (q_page_content page_name), Close])"
    using assms by (simp add: get_page_content_def get_db_connection_def)
qed

theorem get_page_error_policy_witness:
  "connect_fault ex_site_env = None
   \<and> get_page ex_site_env ''nonexistent-slug'' =
       (Inr None, [Connect, Execute (q_page ''nonexistent-slug''), Close])
   \<and> get_page_content ex_site_env ''nonexistent-name'' =
       (Inr None,
        [Connect, Execute (q_page_content ''nonexistent-name''),
         Print ''Error getting page content nonexistent-name: no such table: page_content'',
         Close])"
proof -
  have c: "connect_fault ex_site_env = None"
    by (simp add: ex_site_env_def)
  have p: "query_fault ex_site_env (q_page ''nonexistent-slug'') = None
           \<and> tables ex_site_env ''pages'' = Some ex_pages_table
           \<and> ''slug'' \<in> set (tcolumns ex_pages_table)
           \<and> filter (\<lambda>r. cell r ''slug'' = SText ''nonexistent-slug'')
                (table_rows ex_pages_table) = []"
    by (simp add: ex_site_env_def ex_pages_table_def table_rows_def stored_row_def cell_def has_column_def ci_eq_def)
  have q: "execute ex_site_env (q_page_content ''nonexistent-name'') =
             Inl (Sqlite3_Error ''no such table: page_content'')"
    by (simp add: execute_def ex_site_env_def q_page_content_def)
  show ?thesis
    using c p q
      get_page_error_policy [OF c, of "''nonexistent-slug''" "''nonexistent-name''"]
    by simp
qed

lemma sorted_singleton_keys:
  "sorted (map (\<lambda>r. [f r]) rs) = sorted (map f rs)" for f :: "'a \<Rightarrow> 'b::linorder"
  by (induction rs) (auto simp: less_le)

text \<open>
  C5. When the connection is open, the statement meets no fault and the retailers table has
  the columns \<open>category\<close> and \<open>name\<close>, \<open>get_retailers_by_category\<close> returns exactly the
  rows of the table whose category equals the argument, each as often as the table holds
  it, in ascending order of their names.
\<close>

theorem retailers_filtered_and_sorted:
  assumes "connect_fault e = None" and "query_fault e (q_retailers category) = None"
    and "tables e ''retailers'' = Some t"
    and "''category'' \<in> set (tcolumns t)" and "''name'' \<in> set (tcolumns t)"
  shows "\<exists>rs. get_retailers_by_category e category =
                (Inr rs, [Connect, Execute (q_retailers category), Close])
          \<and> mset rs = mset (filter (\<lambda>r. cell r ''category'' = SText category) (table_rows t))
          \<and> sorted (map (\<lambda>r. sql_rank (cell r ''name'')) rs)"
proof -
  let ?rs = "order_by [''name'']
               (filter (\<lambda>r. cell r ''category'' = SText category) (table_rows t))"
  have "execute e (q_retailers category) = Inr ?rs"
    using assms
      run_query_ok [of "tables e" "''retailers''" t Star
                       "Some (''category'', SText category)" "[''name'']"]
    by (simp add: execute_def q_retailers_def referenced_def where_clause_def
             del: run_query.simps)
  then have "get_retailers_by_category e category =
                (Inr ?rs, [Connect, Execute (q_retailers category), Close])"
    using assms(1) by (simp add: get_retailers_by_category_def get_db_connection_def)
  moreover have "sorted (map (\<lambda>r. sql_rank (cell r ''name'')) ?rs)"
    using sorted_sort_key [of "\<lambda>r. [sql_rank (cell r ''name'')]"]
    by (simp add: order_by_def sorted_singleton_keys)
  ultimately show ?thesis by simp
qed

lemma ex_retailers_online:
  "get_retailers_by_category ex_site_env ''online'' =
     (Inr [[(''name'', SText ''Alpha Store''), (''category'', SText ''online'')],
           [(''name'', SText ''Beta Store''), (''category'', SText ''online'')]],
      [Connect, Execute (q_retailers ''online''), Close])"
  by (simp add: get_retailers_by_category_def get_db_connection_def execute_def ex_site_env_def
        q_retailers_def ex_retailers_table_def referenced_def where_clause_def order_by_def
        stored_row_def cell_def project_def has_column_def ci_eq_def)

theorem retailers_filtered_and_sorted_witness:
  "get_retailers_by_category ex_site_env ''online'' =
     (Inr [[(''name'', SText ''Alpha Store''), (''category'', SText ''online'')],
           [(''name'', SText ''Beta Store''), (''category'', SText ''online'')]],
      [Connect, Execute (q_retailers ''online''), Close])
   \<and> sorted (map (\<lambda>r. sql_rank (cell r ''name''))
        [[(''name'', SText ''Alpha Store''), (''category'', SText ''online'')],
         [(''name'', SText ''Beta Store''), (''category'', SText ''online'')]])"
proof -
  have h: "connect_fault ex_site_env = None"
    "query_fault ex_site_env (q_retailers ''online'') = None"
    "tables ex_site_env ''retailers'' = Some ex_retailers_table"
    "''category'' \<in> set (tcolumns ex_retailers_table)"
    "''name'' \<in> set (tcolumns ex_retailers_table)"
    by (simp_all add: ex_site_env_def ex_retailers_table_def)
  from retailers_filtered_and_sorted [OF h]
  obtain rs where "get_retailers_by_category ex_site_env ''online'' =
                (Inr rs, [Connect, Execute (q_retailers ''online''), Close])"
     "sorted (map (\<lambda>r. sql_rank (cell r ''name'')) rs)"
    by blast
  then show ?thesis using ex_retailers_online by simp
qed

section \<open>The home route\<close>

lemma q_testimonials_active:
  assumes "execute e q_testimonials = Inr rs" "r \<in> set rs"
  shows "cell r ''active'' = SInt 1"
proof -
  from assms(1)
  have "run_query (tables e) (Select Star ''testimonials'' (Some (''active'', SInt 1)) [])
          = Inr rs"
    using execute_Inr [of e q_testimonials rs]
    by (simp add: q_testimonials_def del: run_query.simps)
  then obtain t where
    "rs = map (project Star)
            (order_by [] (where_clause (Some (''active'', SInt 1)) (table_rows t)))"
    by (rule run_query_Inr)
  with assms(2) show ?thesis by (auto simp: where_clause_def)
qed

lemma get_testimonials_Inr:
  assumes "get_testimonials e = (Inr ts, tr)"
  shows "execute e q_testimonials = Inr ts \<or> ts = []"
proof (cases "execute e q_testimonials")
  case (Inl x)
  with assms show ?thesis
    by (cases x) (auto simp: get_testimonials_def split: sum.splits)
next
  case (Inr rs)
  with assms show ?thesis
    by (auto simp: get_testimonials_def split: sum.splits)
qed

text \<open>
  C6. Every row that \<open>get_testimonials\<close> returns has \<open>active = 1\<close>; when the statement
  meets no fault and the table has the column, the rows returned are exactly the active
  rows of the table, in the table's order. The home route hands the template the first of
  the rows returned, or the absent value when there is none, and nothing of the other rows.
\<close>

theorem home_surfaces_first_active:
  assumes "get_site_settings e = (Inr s, t1)"
    and "get_page_content e ''home'' = (Inr hc, t2)"
    and "get_testimonials e = (Inr ts, t3)"
  shows "(\<forall>r \<in> set ts. cell r ''active'' = SInt 1)
       \<and> (\<forall>t. query_fault e q_testimonials = None \<and> tables e ''testimonials'' = Some t
               \<and> ''active'' \<in> set (tcolumns t) \<longrightarrow>
             ts = filter (\<lambda>r. cell r ''active'' = SInt 1) (table_rows t))
       \<and> index render e =
           (case render ''index.html''
                   [(''site_settings'', TSettings s), (''settings'', TSettings s),
                    (''home_content'', TRow hc),
                    (''testimonial'', TRow (case ts of [] \<Rightarrow> None | r # _ \<Rightarrow> Some r))] of
              Inl x \<Rightarrow> index_failed x (t1 @ t2 @ t3)
            | Inr body \<Rightarrow> ((body, 200), t1 @ t2 @ t3))"
proof (intro conjI ballI allI impI)
  fix r assume "r \<in> set ts"
  then show "cell r ''active'' = SInt 1"
    using get_testimonials_Inr [OF assms(3)] q_testimonials_active [of e ts r] by auto
next
  fix t assume "query_fault e q_testimonials = None \<and> tables e ''testimonials'' = Some t
               \<and> ''active'' \<in> set (tcolumns t)"
  then have "execute e q_testimonials =
               Inr (filter (\<lambda>r. cell r ''active'' = SInt 1) (table_rows t))"
    using select_where_ok [of e "''testimonials''" "''active''" "SInt 1" t]
    by (simp add: q_testimonials_def)
  with assms(3) show "ts = filter (\<lambda>r. cell r ''active'' = SInt 1) (table_rows t)"
    by (auto simp: get_testimonials_def split: sum.splits)
next
  have "(if ts \<noteq> [] then Some (hd ts) else None) = (case ts of [] \<Rightarrow> None | r # _ \<Rightarrow> Some r)"
    by (cases ts) auto
  then show "index render e =
           (case render ''index.html''
                   [(''site_settings'', TSettings s), (''settings'', TSettings s),
                    (''home_content'', TRow hc),
                    (''testimonial'', TRow (case ts of [] \<Rightarrow> None | r # _ \<Rightarrow> Some r))] of
              Inl x \<Rightarrow> index_failed x (t1 @ t2 @ t3)
            | Inr body \<Rightarrow> ((body, 200), t1 @ t2 @ t3))"
    using assms by (simp add: index_def Let_def)
qed

lemma ex_site_settings:
  "get_site_settings ex_site_env =
     (Inr default_settings,
      [Connect, Execute q_settings_row, Print ''Method 1 failed: no such table: settings'',
       Execute q_settings_pairs, Print ''Method 2 failed: no such table: settings'',
       Print ''Using fallback default values'', Close])"
  by (simp add: get_site_settings_def get_db_connection_def execute_def ex_site_env_def
        q_settings_row_def q_settings_pairs_def settings_method2_def)

lemma ex_site_home_content:
  "get_page_content ex_site_env ''home'' =
     (Inr None,
      [Connect, Execute (q_page_content ''home''),
       Print ''Error getting page content home: no such table: page_content'', Close])"
  by (simp add: get_page_content_def get_db_connection_def execute_def ex_site_env_def
        q_page_content_def)

lemma ex_site_testimonials:
  "get_testimonials ex_site_env =
     (Inr [[(''active'', SInt 1), (''text'', SText ''Great!'')]],
      [Connect, Execute q_testimonials, Close])"
  by (simp add: get_testimonials_def get_db_connection_def execute_def ex_site_env_def
        q_testimonials_def ex_testimonials_table_def referenced_def where_clause_def
        stored_row_def cell_def project_def has_column_def ci_eq_def)

theorem home_surfaces_first_active_witness:
  "get_testimonials ex_site_env =
     (Inr [[(''active'', SInt 1), (''text'', SText ''Great!'')]],
      [Connect, Execute q_testimonials, Close])
   \<and> fst (index ex_renderer ex_site_env) = (''Great!'', 200)"
  using ex_site_testimonials
    home_surfaces_first_active
      [OF ex_site_settings ex_site_home_content ex_site_testimonials, of ex_renderer]
  by (simp add: ex_renderer_def cell_def ci_eq_def)

section \<open>The static exporter\<close>

lemma init_db_not_in_app: "''init_db'' \<notin> set app_module_names"
  by (simp add: app_module_names_def)

lemma main_stops_at_import:
  "main w fs = (Inl (Import_Error ''cannot import name init_db from app''), fs, [starting_line])"
  by (simp add: main_def then_do_def say_def from_app_import_def init_db_not_in_app
        starting_line_def)

lemma validate_build_report:
  "validate_build fs =
     (Inr (missing_files fs = []), fs,
      if missing_files fs = [] then [check_mark @ '' All required files generated successfully!'']
      else (cross_mark @ '' Missing files in build:'') #
           map (\<lambda>p. ''  - '' @ p) (missing_files fs))"
  by (simp add: validate_build_def)

lemma set_missing_files:
  "set (missing_files fs) = {p \<in> set required_files. fs (path_join build_dir p) = None}"
  by (auto simp: missing_files_def path_exists_def)

lemma then_do_Inr:
  assumes "then_do r k = (Inr v, fs', out)"
  obtains fs1 out1 out2
  where "r = (Inr (), fs1, out1)" "k fs1 = (Inr v, fs', out2)" "out = out1 @ out2"
  using assms by (auto simp: then_do_def split: prod.splits sum.splits)

text \<open>
  Whenever the body of \<open>main\<close> from \<open>init_db()\<close> on returns, whatever \<open>init_db\<close> and
  the freezer have done, it returns 0 if no required file is missing and 1 otherwise, and
  the manifest is in place.
\<close>

lemma main_body_exit:
  assumes "main_body w f fs = (Inr n, fs', out)"
  shows "n = (if missing_files fs' = [] then 0 else 1)
       \<and> fs' (path_join build_dir ''deployment-info.json'') =
           Some (File (Json (the_deployment_info (rt w))))"
  using assms unfolding main_body_def
  apply (elim then_do_Inr)
  apply (auto simp: validate_build_def generate_deployment_info_def lift_fs_def open_write_def
                    optimize_static_files_def
              split: if_splits sum.splits)
  done

lemma clean_build_directory_empties:
  assumes "clean_build_directory fs = (Inr (), fs', out)"
    and "fs build_dir = None \<longrightarrow> (\<forall>p. is_under build_dir p \<longrightarrow> fs p = None)"
  shows "fs' build_dir = Some Dir \<and> (\<forall>p. is_under build_dir p \<longrightarrow> fs' p = None)
         \<and> (\<forall>p. p \<noteq> build_dir \<and> \<not> is_under build_dir p \<longrightarrow> fs' p = fs p)"
proof -
  have nu: "\<not> is_under build_dir build_dir"
    by (simp add: is_under_def)
  show ?thesis
  proof (cases "fs build_dir")
    case None
    with assms nu show ?thesis
      by (auto simp: clean_build_directory_def path_exists_def lift_fs_def makedirs_def)
  next
    case (Some n)
    with assms(1)
    have "fs' = (\<lambda>p. if p = build_dir \<or> is_under build_dir p then None else fs p)
                  (build_dir \<mapsto> Dir)"
      by (auto simp: clean_build_directory_def path_exists_def lift_fs_def makedirs_def
                     rmtree_def then_do_def say_def
               split: if_splits)
    then show ?thesis using nu by auto
  qed
qed

lemma main_body_on_stale:
  "fst (main_body ex_world (\<lambda>fs. Inr fs) ex_fs_stale) = Inr 0
   \<and> fst (snd (main_body ex_world (\<lambda>fs. Inr fs) ex_fs_stale)) ''build/old.html'' = None
   \<and> fst (snd (main_body ex_world (\<lambda>fs. Inr fs) ex_fs_stale)) ''build/index.html''
       = Some (File (Text ''<html>home</html>''))"
  by (simp add: main_body_def then_do_def lift_fs_def ex_world_def clean_build_directory_def
        path_exists_def makedirs_def rmtree_def is_under_def say_def build_dir_def
        prepare_build_directory_def open_write_def path_join_def optimize_static_files_def
        generate_deployment_info_def validate_build_def missing_files_def required_files_def
        ex_pages_def ex_fs_stale_def)

text \<open>
  C7. A run of the exporter in this repository: \<open>main\<close> starts with
  \<open>from app import init_db\<close>, and app.py binds no such name, so the run ends with an
  ImportError before the build directory is touched. Started on an empty file system it
  leaves all five expected paths missing.
\<close>

theorem export_run_writes_nothing:
  "main ex_world Map.empty =
     (Inl (Import_Error ''cannot import name init_db from app''), Map.empty, [starting_line])
   \<and> missing_files (fst (snd (main ex_world Map.empty))) = required_files"
  by (simp add: main_stops_at_import missing_files_def path_exists_def)

text \<open>
  C8. With all five expected files in place \<open>validate_build\<close> reports success, yet the run
  of \<open>main\<close> ends with the ImportError and the process exits with status 1, not 0.
\<close>

theorem complete_build_exit_status:
  "missing_files ex_fs_complete = []
   \<and> fst (validate_build ex_fs_complete) = Inr True
   \<and> fst (main ex_world ex_fs_complete) = Inl (Import_Error ''cannot import name init_db from app'')
   \<and> exit_status (main ex_world ex_fs_complete) = 1"
proof -
  have "missing_files ex_fs_complete = []"
    by (simp add: missing_files_def path_exists_def required_files_def ex_fs_complete_def
          ex_pages_def path_join_def build_dir_def)
  then show ?thesis
    by (simp add: validate_build_report main_stops_at_import exit_status_def)
qed

text \<open>
  C9. A stale file in the build directory is still there after two runs of \<open>main\<close> in
  sequence: the run never reaches \<open>clean_build_directory\<close>.
\<close>

theorem stale_file_survives:
  "fst (snd (main ex_world (fst (snd (main ex_world ex_fs_stale))))) ''build/old.html''
     = Some (File (Text ''stale''))"
  by (simp add: main_stops_at_import ex_fs_stale_def)

text \<open>
  C10. Wherever \<open>generate_deployment_info\<close> can write (the build directory exists and the
  manifest's path is not a directory), it writes the same document whatever else the file
  system holds: the page list is \<open>['/', '/about', '/where-to-buy']\<close>, the target is
  \<open>GitHub Pages\<close> and the instructions are the five fixed lines. Only the time stamp and
  the two version strings vary.
\<close>

theorem manifest_is_constant:
  assumes "fs build_dir = Some Dir"
    and "fs (path_join build_dir ''deployment-info.json'') \<noteq> Some Dir"
  shows \<open>generate_deployment_info r fs =
           (Inr (),
            fs(path_join build_dir ''deployment-info.json'' \<mapsto>
                 File (Json (the_deployment_info r))),
            [])
       \<and> pages_generated (the_deployment_info r) = [''/'', ''/about'', ''/where-to-buy'']
       \<and> deployment_target (the_deployment_info r) = ''GitHub Pages''
       \<and> instructions (the_deployment_info r) =
           [''1. Commit all files in the build/ directory to your repository'',
            ''2. Push to the main branch'',
            ''3. Enable GitHub Pages in repository settings'',
            ''4. Set source to "Deploy from a branch" and select "main" branch'',
            ''5. Your site will be available at https://yourusername.github.io/repository-name/'']\<close>
  using assms
  by (simp add: generate_deployment_info_def lift_fs_def open_write_def the_deployment_info_def)

theorem manifest_is_constant_witness:
  "ex_fs_stale build_dir = Some Dir
   \<and> ex_fs_stale (path_join build_dir ''deployment-info.json'') \<noteq> Some Dir
   \<and> fst (snd (generate_deployment_info ex_runtime ex_fs_stale)) ''build/deployment-info.json''
       = Some (File (Json (the_deployment_info ex_runtime)))
   \<and> pages_generated (the_deployment_info ex_runtime) = [''/'', ''/about'', ''/where-to-buy'']"
proof -
  have h: "ex_fs_stale build_dir = Some Dir"
    "ex_fs_stale (path_join build_dir ''deployment-info.json'') \<noteq> Some Dir"
    by (simp_all add: ex_fs_stale_def build_dir_def path_join_def)
  show ?thesis
    using h manifest_is_constant [OF h, of ex_runtime]
    by (simp add: build_dir_def path_join_def)
qed

end
